theory Spec2Isabelle
  imports Main
begin

section \<open>JavaScript values\<close>

text \<open>
  The state manager of \<^verbatim>\<open>src/a.js\<close> stores untyped JavaScript values. Objects, arrays,
  Maps, Sets and functions carry the address they were allocated at, because \<^verbatim>\<open>===\<close>
  compares them by reference; snapshots are frozen and the collections inside them are
  never updated in place, so an address together with the contents is all a value needs.
  Numbers are the integers (timestamps, counters, indexes); \<^verbatim>\<open>NaN\<close>, the infinities and
  fractions are not modelled. An object's properties are kept in insertion order, which
  is the order \<^verbatim>\<open>Object.keys\<close>, the spread operator and \<^verbatim>\<open>JSON.stringify\<close> visit them in
  (for names that are not array indexes).
\<close>

type_synonym ref = nat

datatype jsval =
    VUndefined
  | VNull
  | VBool bool
  | VNum int
  | VStr string
  | VFun ref
  | VObj ref "(string \<times> jsval) list"
  | VArr ref "jsval list"
  | VMap ref "(jsval \<times> jsval) list"
  | VSet ref "jsval list"

datatype exn = Error string | TypeError string | Thrown jsval

type_synonym props = "(string \<times> jsval) list"

text \<open>The \<^verbatim>\<open>typeof\<close> operator.\<close>

fun typeof :: "jsval \<Rightarrow> string" where
  "typeof VUndefined = ''undefined''"
| "typeof VNull = ''object''"
| "typeof (VBool b) = ''boolean''"
| "typeof (VNum n) = ''number''"
| "typeof (VStr s) = ''string''"
| "typeof (VFun r) = ''function''"
| "typeof (VObj r ps) = ''object''"
| "typeof (VArr r xs) = ''object''"
| "typeof (VMap r kvs) = ''object''"
| "typeof (VSet r xs) = ''object''"

text \<open>
  \<^verbatim>\<open>a === b\<close>: primitives by value, everything allocated by address. Without \<^verbatim>\<open>NaN\<close>
  this is also the SameValueZero comparison that Map keys and Set members use.
\<close>

definition strict_eq :: "jsval \<Rightarrow> jsval \<Rightarrow> bool" where
  "strict_eq a b =
     (case a of
        VUndefined \<Rightarrow> b = VUndefined
      | VNull \<Rightarrow> b = VNull
      | VBool x \<Rightarrow> b = VBool x
      | VNum x \<Rightarrow> b = VNum x
      | VStr x \<Rightarrow> b = VStr x
      | VFun r \<Rightarrow> b = VFun r
      | VObj r ps \<Rightarrow> (case b of VObj r' ps' \<Rightarrow> r = r' | _ \<Rightarrow> False)
      | VArr r xs \<Rightarrow> (case b of VArr r' xs' \<Rightarrow> r = r' | _ \<Rightarrow> False)
      | VMap r kvs \<Rightarrow> (case b of VMap r' kvs' \<Rightarrow> r = r' | _ \<Rightarrow> False)
      | VSet r xs \<Rightarrow> (case b of VSet r' xs' \<Rightarrow> r = r' | _ \<Rightarrow> False))"

text \<open>\<^verbatim>\<open>!v\<close> is true for the falsy values.\<close>

fun falsy :: "jsval \<Rightarrow> bool" where
  "falsy VUndefined = True"
| "falsy VNull = True"
| "falsy (VBool b) = (\<not> b)"
| "falsy (VNum n) = (n = 0)"
| "falsy (VStr s) = (s = [])"
| "falsy v = False"

text \<open>
  Reading a named property, \<^verbatim>\<open>o[k]\<close> or \<^verbatim>\<open>o.k\<close>. On \<^verbatim>\<open>undefined\<close> and \<^verbatim>\<open>null\<close> the read
  throws; on a plain object it finds the own property or yields \<^verbatim>\<open>undefined\<close>. The
  manager reads only the names \<^verbatim>\<open>user\<close>, \<^verbatim>\<open>videos\<close>, \<^verbatim>\<open>likedVideos\<close>, \<^verbatim>\<open>savedVideos\<close>,
  \<^verbatim>\<open>online\<close>, \<^verbatim>\<open>ui\<close>, \<^verbatim>\<open>cache\<close>, \<^verbatim>\<open>pendingActions\<close>, \<^verbatim>\<open>data\<close>, \<^verbatim>\<open>timestamp\<close>, \<^verbatim>\<open>type\<close>, \<^verbatim>\<open>id\<close>,
  \<^verbatim>\<open>videoId\<close>, \<^verbatim>\<open>liked\<close> and \<^verbatim>\<open>saved\<close>, none of which a built-in prototype defines, so on
  every other kind of value the read yields \<^verbatim>\<open>undefined\<close>.
\<close>

definition lookup :: "props \<Rightarrow> string \<Rightarrow> jsval" where
  "lookup ps k = (case map_of ps k of Some v \<Rightarrow> v | None \<Rightarrow> VUndefined)"

fun getProp :: "jsval \<Rightarrow> string \<Rightarrow> exn + jsval" where
  "getProp VUndefined k = Inl (TypeError ''Cannot read properties of undefined'')"
| "getProp VNull k = Inl (TypeError ''Cannot read properties of null'')"
| "getProp (VObj r ps) k = Inr (lookup ps k)"
| "getProp v k = Inr VUndefined"

section \<open>JSON.stringify\<close>

text \<open>
  \<^verbatim>\<open>isEqual\<close> falls back on comparing \<^verbatim>\<open>JSON.stringify(a)\<close> with \<^verbatim>\<open>JSON.stringify(b)\<close>.
  The serializer's text is determined by, and determines, the JSON tree below, so the
  model compares trees. \<^verbatim>\<open>undefined\<close> and functions have no serialization (the call
  returns \<^verbatim>\<open>undefined\<close>); inside an array they are written as \<^verbatim>\<open>null\<close>, inside an object
  the property is left out. Maps and Sets have no enumerable own properties and are
  written as \<^verbatim>\<open>{}\<close>.
\<close>

datatype json =
    JNull
  | JBool bool
  | JNum int
  | JStr string
  | JArr "json list"
  | JObj "(string \<times> json) list"

fun stringify :: "jsval \<Rightarrow> json option" where
  "stringify VUndefined = None"
| "stringify (VFun r) = None"
| "stringify VNull = Some JNull"
| "stringify (VBool b) = Some (JBool b)"
| "stringify (VNum n) = Some (JNum n)"
| "stringify (VStr s) = Some (JStr s)"
| "stringify (VArr r xs) =
     Some (JArr (map (\<lambda>x. case stringify x of None \<Rightarrow> JNull | Some j \<Rightarrow> j) xs))"
| "stringify (VObj r ps) =
     Some (JObj (concat (map (\<lambda>p. case stringify (snd p) of
                                     None \<Rightarrow> [] | Some j \<Rightarrow> [(fst p, j)]) ps)))"
| "stringify (VMap r kvs) = Some (JObj [])"
| "stringify (VSet r xs) = Some (JObj [])"

section \<open>ChangeDetector: isEqual and getChangedKeys\<close>

text \<open>
  \<^verbatim>\<open>Map.prototype.get\<close> and \<^verbatim>\<open>Set.prototype.has\<close> on the entry and member lists;
  \<^verbatim>\<open>mapEntries\<close> and \<^verbatim>\<open>setMembers\<close> are the \<^verbatim>\<open>instanceof Map\<close> and \<^verbatim>\<open>instanceof Set\<close> tests
  together with the contents.
\<close>

fun mapGet :: "(jsval \<times> jsval) list \<Rightarrow> jsval \<Rightarrow> jsval" where
  "mapGet [] k = VUndefined"
| "mapGet ((k', v) # kvs) k = (if strict_eq k' k then v else mapGet kvs k)"

definition setHas :: "jsval list \<Rightarrow> jsval \<Rightarrow> bool" where
  "setHas xs x = list_ex (\<lambda>y. strict_eq y x) xs"

text \<open>
  \<^verbatim>\<open>
  isEqual(a, b) {
      if (a === b) return true;
      if (a instanceof Map && b instanceof Map)
          return a.size === b.size &&
                 Array.from(a.entries()).every(([k, v]) => b.get(k) === v);
      if (a instanceof Set && b instanceof Set)
          return a.size === b.size && Array.from(a).every(item => b.has(item));
      return JSON.stringify(a) === JSON.stringify(b);
  }
  \<close>
\<close>

fun mapEntries :: "jsval \<Rightarrow> (jsval \<times> jsval) list option" where
  "mapEntries (VMap r kvs) = Some kvs"
| "mapEntries v = None"

fun setMembers :: "jsval \<Rightarrow> jsval list option" where
  "setMembers (VSet r xs) = Some xs"
| "setMembers v = None"

definition isEqual :: "jsval \<Rightarrow> jsval \<Rightarrow> bool" where
  "isEqual a b =
     (if strict_eq a b then True
      else case (mapEntries a, mapEntries b) of
        (Some ea, Some eb) \<Rightarrow>
          length ea = length eb \<and> list_all (\<lambda>(k, v). strict_eq (mapGet eb k) v) ea
      | _ \<Rightarrow>
        (case (setMembers a, setMembers b) of
           (Some ma, Some mb) \<Rightarrow>
             length ma = length mb \<and> list_all (\<lambda>item. setHas mb item) ma
         | _ \<Rightarrow> stringify a = stringify b))"

text \<open>
  \<^verbatim>\<open>new Set([...Object.keys(previous), ...Object.keys(current)])\<close> keeps the first
  occurrence of every key, in order.
\<close>

fun dedupe :: "'a list \<Rightarrow> 'a list" where
  "dedupe [] = []"
| "dedupe (x # xs) = x # dedupe (filter (\<lambda>y. y \<noteq> x) xs)"

definition getChangedKeys :: "props \<Rightarrow> props \<Rightarrow> string list" where
  "getChangedKeys previous current =
     filter (\<lambda>key. \<not> isEqual (lookup previous key) (lookup current key))
            (dedupe (map fst previous @ map fst current))"

section \<open>Schema validation\<close>

text \<open>
  \<^verbatim>\<open>
  validateState(state) {
      const schema = { user: ['object', 'null'], videos: ['object'],
                       likedVideos: ['object'], savedVideos: ['object'],
                       online: ['boolean'], ui: ['object'] };
      for (const [key, expectedTypes] of Object.entries(schema)) {
          const actualType = typeof state[key];
          if (!expectedTypes.includes(actualType)) { console.error(...); return false; }
      }
      return true;
  }
  \<close>
  The loop returns the first key whose type is not allowed (the one the console message
  names), or nothing when every key passes. Reading \<^verbatim>\<open>state[key]\<close> throws when the
  candidate is \<^verbatim>\<open>undefined\<close> or \<^verbatim>\<open>null\<close>.
\<close>

definition schema :: "(string \<times> string list) list" where
  "schema =
     [(''user'', [''object'', ''null'']),
      (''videos'', [''object'']),
      (''likedVideos'', [''object'']),
      (''savedVideos'', [''object'']),
      (''online'', [''boolean'']),
      (''ui'', [''object''])]"

fun validateLoop :: "(string \<times> string list) list \<Rightarrow> jsval \<Rightarrow> exn + string option" where
  "validateLoop [] st = Inr None"
| "validateLoop ((key, expectedTypes) # rest) st =
     (case getProp st key of
        Inl err \<Rightarrow> Inl err
      | Inr v \<Rightarrow>
          (let actualType = typeof v
           in if actualType \<notin> set expectedTypes then Inr (Some key)
              else validateLoop rest st))"

definition validateState :: "jsval \<Rightarrow> exn + bool" where
  "validateState st =
     (case validateLoop schema st of
        Inl err \<Rightarrow> Inl err
      | Inr failed \<Rightarrow> Inr (failed = None))"

section \<open>The manager\<close>

text \<open>
  A subscriber callback is known by the address of the function and by what a call of
  it does: return, or throw. Callbacks only observe: they do not call back into the
  manager. A field subscriber is called with \<^verbatim>\<open>(current[key], previous[key], key)\<close>, a
  wildcard subscriber with \<^verbatim>\<open>(currentState, previousState, changedKeys)\<close>.
\<close>

datatype cb_args =
    FieldArgs jsval jsval string
  | GlobalArgs props props "string list"

datatype callback = Callback (cb_id: ref) (cb_run: "cb_args \<Rightarrow> exn option")

text \<open>
  The argument of \<^verbatim>\<open>setState\<close>: a function from the current snapshot to the candidate
  fields (which may throw), or the candidate fields themselves.
\<close>

datatype updater = UFun "props \<Rightarrow> exn + jsval" | UVal jsval

text \<open>
  A remote call \<^verbatim>\<open>apiRequest('/videos/<videoId>/<endpoint>', {method: 'PATCH', body: {<endpoint>d: flag}})\<close>
  is recorded by its endpoint (\<^verbatim>\<open>like\<close> or \<^verbatim>\<open>save\<close>), the video id and the flag.
\<close>

datatype request = Request string jsval jsval

text \<open>Everything the manager does to the outside, in the order it does it.\<close>

datatype event =
    ConsoleWarn string
  | ConsoleError string
  | Invoked ref cb_args
  | SaveDebounced
  | StorageWrite string jsval
  | ApiRequest request
  | FetcherCalled

record history_entry =
  timestamp :: int
  previous :: props
  current :: props

text \<open>
  A promise made by \<^verbatim>\<open>new Promise\<close> in \<^verbatim>\<open>setState\<close> is settled once: fulfilled with the
  new snapshot or rejected with the error. \<^verbatim>\<open>Promise.resolve()\<close> is fulfilled with
  \<^verbatim>\<open>undefined\<close> from the start.
\<close>

datatype settlement = Fulfilled "props option" | Rejected exn

datatype promise = Promise nat | ResolvedUndefined

text \<open>
  The fields of \<^verbatim>\<open>ImmutableStateManager\<close> (\<^verbatim>\<open>_state\<close>, \<^verbatim>\<open>subscribers\<close>, \<^verbatim>\<open>history\<close>,
  \<^verbatim>\<open>isMutating\<close>) and the part of the JavaScript runtime its methods use: the microtasks
  queued by \<^verbatim>\<open>queueMicrotask\<close> (each the body of one accepted \<^verbatim>\<open>setState\<close>, with the
  promise it settles), the promises settled so far, \<^verbatim>\<open>Date.now()\<close>, and the trace of
  events.
\<close>

record manager =
  state :: props
  subscribers :: "(string \<times> callback list) list"
  history :: "history_entry list"
  isMutating :: bool
  microtasks :: "(nat \<times> updater) list"
  settled :: "(nat \<times> settlement) list"
  nextPromise :: nat
  clock :: int
  trace :: "event list"

definition cacheTimeout :: int where
  "cacheTimeout = 30000"

definition maxHistoryLength :: nat where
  "maxHistoryLength = 50"

definition log :: "event list \<Rightarrow> manager \<Rightarrow> manager" where
  "log evs m = m\<lparr>trace := trace m @ evs\<rparr>"

text \<open>
  The constructor's state, for a given \<^verbatim>\<open>navigator.onLine\<close>. The initial collections
  and the \<^verbatim>\<open>ui\<close> object are allocated at the addresses 1 to 7.
\<close>

definition initialState :: "bool \<Rightarrow> props" where
  "initialState onLine =
     [(''user'', VNull),
      (''videos'', VMap 1 []),
      (''likedVideos'', VSet 2 []),
      (''savedVideos'', VSet 3 []),
      (''currentMediaIndexes'', VMap 4 []),
      (''online'', VBool onLine),
      (''pendingActions'', VArr 5 []),
      (''cache'', VMap 6 []),
      (''ui'', VObj 7
         [(''theme'', VStr ''dark''),
          (''language'', VStr ''tr''),
          (''videoQuality'', VStr ''auto''),
          (''autoplay'', VBool True),
          (''notifications'', VBool True)])]"

definition constructor :: "bool \<Rightarrow> int \<Rightarrow> manager" where
  "constructor onLine now =
     \<lparr>state = initialState onLine, subscribers = [], history = [], isMutating = False,
      microtasks = [], settled = [], nextPromise = 0, clock = now, trace = []\<rparr>"

subsection \<open>subscribe and notifySubscribers\<close>

text \<open>
  \<^verbatim>\<open>Map.prototype.set\<close> on an association list: an existing key keeps its place, a new
  key goes to the end. The same function builds \<^verbatim>\<open>{...previousState, ...newState}\<close>.
\<close>

fun assign :: "'k \<Rightarrow> 'v \<Rightarrow> ('k \<times> 'v) list \<Rightarrow> ('k \<times> 'v) list" where
  "assign k v [] = [(k, v)]"
| "assign k v ((k', v') # rest) =
     (if k' = k then (k, v) # rest else (k', v') # assign k v rest)"

definition spreadMerge :: "props \<Rightarrow> props \<Rightarrow> props" where
  "spreadMerge previousState newState = fold (\<lambda>(k, v) acc. assign k v acc) newState previousState"

definition subscribe :: "string \<Rightarrow> callback \<Rightarrow> manager \<Rightarrow> manager" where
  "subscribe key callback m =
     (let cbs = (case map_of (subscribers m) key of None \<Rightarrow> [] | Some cbs \<Rightarrow> cbs);
          cbs' = (if list_ex (\<lambda>c. cb_id c = cb_id callback) cbs then cbs else cbs @ [callback])
      in m\<lparr>subscribers := assign key cbs' (subscribers m)\<rparr>)"

text \<open>
  \<^verbatim>\<open>
  subscribers.forEach(callback => {
      try { callback(...) } catch (error) { console.error(..., error); }
  });
  \<close>
  Every callback of the list is invoked; a throw is logged and the loop goes on.
\<close>

fun invokeAll :: "callback list \<Rightarrow> cb_args \<Rightarrow> string \<Rightarrow> event list" where
  "invokeAll [] args label = []"
| "invokeAll (cb # cbs) args label =
     Invoked (cb_id cb) args
       # (case cb_run cb args of None \<Rightarrow> [] | Some error \<Rightarrow> [ConsoleError label])
       @ invokeAll cbs args label"

definition notifyKey :: "(string \<times> callback list) list \<Rightarrow> props \<Rightarrow> props \<Rightarrow> string \<Rightarrow> event list" where
  "notifyKey subs previousState currentState key =
     (case map_of subs key of
        None \<Rightarrow> []
      | Some cbs \<Rightarrow>
          invokeAll cbs (FieldArgs (lookup currentState key) (lookup previousState key) key)
            (''Subscriber error for '' @ key))"

definition notifyGlobal :: "(string \<times> callback list) list \<Rightarrow> props \<Rightarrow> props \<Rightarrow> string list \<Rightarrow> event list" where
  "notifyGlobal subs previousState currentState changedKeys =
     (case map_of subs ''*'' of
        None \<Rightarrow> []
      | Some cbs \<Rightarrow>
          invokeAll cbs (GlobalArgs currentState previousState changedKeys)
            ''Global subscriber error'')"

definition notifySubscribers :: "props \<Rightarrow> props \<Rightarrow> manager \<Rightarrow> manager" where
  "notifySubscribers previousState currentState m =
     (let changedKeys = getChangedKeys previousState currentState
      in log (concat (map (notifyKey (subscribers m) previousState currentState) changedKeys)
              @ notifyGlobal (subscribers m) previousState currentState changedKeys) m)"

subsection \<open>setState\<close>

text \<open>
  The synchronous part of \<^verbatim>\<open>setState\<close>: with the flag set, warn and return
  \<^verbatim>\<open>Promise.resolve()\<close>; otherwise set the flag, queue the body as a microtask and return
  the new promise.
\<close>

definition setState :: "updater \<Rightarrow> manager \<Rightarrow> promise \<times> manager" where
  "setState updater m =
     (if isMutating m then
        (ResolvedUndefined, log [ConsoleWarn ''State mutation already in progress''] m)
      else
        (Promise (nextPromise m),
         m\<lparr>isMutating := True,
           microtasks := microtasks m @ [(nextPromise m, updater)],
           nextPromise := Suc (nextPromise m)\<rparr>))"

definition applyUpdater :: "updater \<Rightarrow> props \<Rightarrow> exn + jsval" where
  "applyUpdater updater st = (case updater of UFun f \<Rightarrow> f st | UVal v \<Rightarrow> Inr v)"

text \<open>
  The own enumerable properties that \<^verbatim>\<open>...newState\<close> copies. Only a plain object can
  pass \<^verbatim>\<open>validateState\<close> (every other kind of value has no \<^verbatim>\<open>user\<close> property), so the
  spread is only ever reached with one.
\<close>

fun ownProps :: "jsval \<Rightarrow> props" where
  "ownProps (VObj r ps) = ps"
| "ownProps v = []"

definition settle :: "nat \<Rightarrow> settlement \<Rightarrow> manager \<Rightarrow> manager" where
  "settle p s m = m\<lparr>settled := settled m @ [(p, s)]\<rparr>"

definition validationLog :: "jsval \<Rightarrow> event list" where
  "validationLog st =
     (case validateLoop schema st of
        Inr (Some key) \<Rightarrow> [ConsoleError (''State validation failed for '' @ key)]
      | _ \<Rightarrow> [])"

definition pushHistory :: "history_entry \<Rightarrow> history_entry list \<Rightarrow> history_entry list" where
  "pushHistory entry h =
     (let h' = h @ [entry] in if length h' > maxHistoryLength then tl h' else h')"

definition commit :: "nat \<Rightarrow> jsval \<Rightarrow> manager \<Rightarrow> manager" where
  "commit p newState m =
     (let previousState = state m;
          currentState = spreadMerge previousState (ownProps newState);
          m1 = m\<lparr>state := currentState,
                 history := pushHistory
                   \<lparr>timestamp = clock m, previous = previousState, current = currentState\<rparr>
                   (history m)\<rparr>;
          m2 = notifySubscribers previousState currentState m1;
          m3 = log [SaveDebounced] m2
      in settle p (Fulfilled (Some currentState)) m3)"

text \<open>
  The microtask queued by \<^verbatim>\<open>setState\<close>:
  \<^verbatim>\<open>
  try {
      const newState = typeof updater === 'function' ? updater(this._state) : updater;
      if (!this.validateState(newState)) throw new Error('Invalid state structure');
      ... commit, history, notifySubscribers, saveToStorageDebounced ...
      resolve(this._state);
  } catch (error) { reject(error); } finally { this.isMutating = false; }
  \<close>
\<close>

definition runMutation :: "nat \<Rightarrow> updater \<Rightarrow> manager \<Rightarrow> manager" where
  "runMutation p updater m =
     (let m' =
        (case applyUpdater updater (state m) of
           Inl error \<Rightarrow> settle p (Rejected error) m
         | Inr newState \<Rightarrow>
             (case validateState newState of
                Inl error \<Rightarrow> settle p (Rejected error) m
              | Inr valid \<Rightarrow>
                  if \<not> valid then
                    settle p (Rejected (Error ''Invalid state structure''))
                      (log (validationLog newState) m)
                  else commit p newState m))
      in m'\<lparr>isMutating := False\<rparr>)"

text \<open>
  One step of the microtask queue, and running it until it is empty (a body queues no
  further microtask). An \<^verbatim>\<open>await\<close> lets the queue run before the caller goes on.
\<close>

definition tick :: "manager \<Rightarrow> manager" where
  "tick m =
     (case microtasks m of
        [] \<Rightarrow> m
      | (p, updater) # rest \<Rightarrow> runMutation p updater (m\<lparr>microtasks := rest\<rparr>))"

definition drain :: "manager \<Rightarrow> manager" where
  "drain m = fold (\<lambda>(p, updater) m'. runMutation p updater m') (microtasks m) (m\<lparr>microtasks := []\<rparr>)"

definition outcome :: "promise \<Rightarrow> manager \<Rightarrow> settlement option" where
  "outcome pr m =
     (case pr of
        ResolvedUndefined \<Rightarrow> Some (Fulfilled None)
      | Promise p \<Rightarrow> map_of (settled m) p)"

section \<open>Allocation and the built-in collections\<close>

text \<open>
  A closure of the manager that builds a new object, array, Map or Set needs an address
  that no value it can see uses. \<^verbatim>\<open>maxRef\<close> is the largest address inside a value;
  \<^verbatim>\<open>freshAfter\<close> is the first address above those of the given values.
\<close>

fun maxRef :: "jsval \<Rightarrow> ref" where
  "maxRef (VFun r) = r"
| "maxRef (VObj r ps) = fold max (map (\<lambda>p. maxRef (snd p)) ps) r"
| "maxRef (VArr r xs) = fold max (map maxRef xs) r"
| "maxRef (VMap r kvs) = fold max (map (\<lambda>p. max (maxRef (fst p)) (maxRef (snd p))) kvs) r"
| "maxRef (VSet r xs) = fold max (map maxRef xs) r"
| "maxRef v = 0"

definition freshAfter :: "jsval list \<Rightarrow> ref" where
  "freshAfter vs = Suc (fold max (map maxRef vs) 0)"

text \<open>
  The iteration protocol behind \<^verbatim>\<open>[...x]\<close>: arrays and Sets yield their elements, a
  string its characters, a Map a new two-element array per entry (allocated from the
  address given); anything else is not iterable.
\<close>

fun iterate :: "ref \<Rightarrow> jsval \<Rightarrow> exn + jsval list" where
  "iterate r (VArr r' xs) = Inr xs"
| "iterate r (VSet r' xs) = Inr xs"
| "iterate r (VStr s) = Inr (map (\<lambda>c. VStr [c]) s)"
| "iterate r (VMap r' kvs) =
     Inr (map (\<lambda>(i, (k, v)). VArr (r + i) [k, v]) (zip [0 ..< length kvs] kvs))"
| "iterate r v = Inl (TypeError ''object is not iterable'')"

text \<open>
  \<^verbatim>\<open>Array.from(x)\<close>: throws on \<^verbatim>\<open>undefined\<close> and \<^verbatim>\<open>null\<close>, iterates an iterable, and
  reads anything else as an array-like without elements (array-likes with a \<^verbatim>\<open>length\<close>
  property of their own are not modelled).
\<close>

fun arrayFrom :: "ref \<Rightarrow> jsval \<Rightarrow> exn + jsval list" where
  "arrayFrom r VUndefined = Inl (TypeError ''undefined is not iterable'')"
| "arrayFrom r VNull = Inl (TypeError ''null is not iterable'')"
| "arrayFrom r v = (case iterate r v of Inl e \<Rightarrow> Inr [] | Inr xs \<Rightarrow> Inr xs)"

text \<open>\<^verbatim>\<open>new Set(items)\<close> keeps the first of the members that are the same value.\<close>

fun uniq :: "jsval list \<Rightarrow> jsval list" where
  "uniq [] = []"
| "uniq (x # xs) = x # uniq (filter (\<lambda>y. \<not> strict_eq y x) xs)"

text \<open>
  \<^verbatim>\<open>Map.prototype.set\<close> and \<^verbatim>\<open>new Map(x)\<close>. The constructor accepts \<^verbatim>\<open>undefined\<close> and
  \<^verbatim>\<open>null\<close> (an empty Map), copies a Map entry by entry, and reads the elements of an
  array or Set as entries: an element must be an object, whose properties \<^verbatim>\<open>0\<close> and \<^verbatim>\<open>1\<close>
  are the key and the value.
\<close>

fun mapSet :: "jsval \<Rightarrow> jsval \<Rightarrow> (jsval \<times> jsval) list \<Rightarrow> (jsval \<times> jsval) list" where
  "mapSet k v [] = [(k, v)]"
| "mapSet k v ((k', v') # rest) =
     (if strict_eq k' k then (k', v) # rest else (k', v') # mapSet k v rest)"

fun entryOf :: "jsval \<Rightarrow> exn + (jsval \<times> jsval)" where
  "entryOf (VArr r []) = Inr (VUndefined, VUndefined)"
| "entryOf (VArr r [k]) = Inr (k, VUndefined)"
| "entryOf (VArr r (k # v # rest)) = Inr (k, v)"
| "entryOf (VObj r ps) = Inr (lookup ps ''0'', lookup ps ''1'')"
| "entryOf (VMap r kvs) = Inr (VUndefined, VUndefined)"
| "entryOf (VSet r xs) = Inr (VUndefined, VUndefined)"
| "entryOf (VFun r) = Inr (VUndefined, VUndefined)"
| "entryOf v = Inl (TypeError ''Iterator value is not an entry object'')"

fun entriesOf :: "jsval list \<Rightarrow> (jsval \<times> jsval) list \<Rightarrow> exn + (jsval \<times> jsval) list" where
  "entriesOf [] acc = Inr acc"
| "entriesOf (x # xs) acc =
     (case entryOf x of
        Inl e \<Rightarrow> Inl e
      | Inr (k, v) \<Rightarrow> entriesOf xs (mapSet k v acc))"

fun newMap :: "jsval \<Rightarrow> exn + (jsval \<times> jsval) list" where
  "newMap VUndefined = Inr []"
| "newMap VNull = Inr []"
| "newMap (VMap r kvs) = Inr (fold (\<lambda>(k, v) acc. mapSet k v acc) kvs [])"
| "newMap (VArr r xs) = entriesOf xs []"
| "newMap (VSet r xs) = entriesOf xs []"
| "newMap (VStr s) =
     (if s = [] then Inr [] else Inl (TypeError ''Iterator value is not an entry object''))"
| "newMap v = Inl (TypeError ''object is not iterable'')"

text \<open>
  The method calls \<^verbatim>\<open>x.get(key)\<close> and \<^verbatim>\<open>x.has(item)\<close>: defined on Maps (and \<^verbatim>\<open>has\<close> on
  Sets); on any other value the call throws.
\<close>

fun callGet :: "jsval \<Rightarrow> jsval \<Rightarrow> exn + jsval" where
  "callGet (VMap r kvs) k = Inr (mapGet kvs k)"
| "callGet v k = Inl (TypeError ''get is not a function'')"

fun callHas :: "jsval \<Rightarrow> jsval \<Rightarrow> exn + bool" where
  "callHas (VSet r xs) x = Inr (setHas xs x)"
| "callHas (VMap r kvs) x = Inr (list_ex (\<lambda>(k, v). strict_eq k x) kvs)"
| "callHas v x = Inl (TypeError ''has is not a function'')"

text \<open>
  \<^verbatim>\<open>String.prototype.includes\<close>: the pattern occurs somewhere in the string. On an array
  key \<^verbatim>\<open>includes\<close> is membership; other keys have no such method.
\<close>

fun isPrefix :: "string \<Rightarrow> string \<Rightarrow> bool" where
  "isPrefix [] s = True"
| "isPrefix (c # cs) [] = False"
| "isPrefix (c # cs) (d # ds) = (c = d \<and> isPrefix cs ds)"

fun strIncludes :: "string \<Rightarrow> string \<Rightarrow> bool" where
  "strIncludes [] pattern = (pattern = [])"
| "strIncludes (c # cs) pattern = (isPrefix pattern (c # cs) \<or> strIncludes cs pattern)"

fun keyIncludes :: "jsval \<Rightarrow> string \<Rightarrow> exn + bool" where
  "keyIncludes (VStr s) pattern = Inr (strIncludes s pattern)"
| "keyIncludes (VArr r xs) pattern = Inr (setHas xs (VStr pattern))"
| "keyIncludes v pattern = Inl (TypeError ''key.includes is not a function'')"

text \<open>
  The number a value stands for in \<^verbatim>\<open>now - cached.timestamp < ttl\<close>; nothing when it is
  \<^verbatim>\<open>NaN\<close>, which makes the comparison false. Numeric strings and objects are read as
  \<^verbatim>\<open>NaN\<close> (the manager itself writes numbers only).
\<close>

fun toNumber :: "jsval \<Rightarrow> int option" where
  "toNumber (VNum n) = Some n"
| "toNumber VNull = Some 0"
| "toNumber (VBool b) = Some (if b then 1 else 0)"
| "toNumber (VStr s) = (if s = [] then Some 0 else None)"
| "toNumber v = None"

section \<open>CacheLayer\<close>

text \<open>\<^verbatim>\<open>saveToStorage(key, value)\<close>: one write to local storage; a failure is caught inside.\<close>

definition saveToStorage :: "string \<Rightarrow> jsval \<Rightarrow> manager \<Rightarrow> manager" where
  "saveToStorage key v m = log [StorageWrite (''socialflow_'' @ key) v] m"

text \<open>
  \<^verbatim>\<open>
  invalidateCache(pattern) {
      this.setState(state => {
          const newCache = new Map(state.cache);
          Array.from(newCache.keys()).filter(key => key.includes(pattern))
               .forEach(key => newCache.delete(key));
          return { cache: newCache };
      });
  }
  \<close>
\<close>

fun matchingKeys :: "jsval list \<Rightarrow> string \<Rightarrow> exn + jsval list" where
  "matchingKeys [] pattern = Inr []"
| "matchingKeys (key # keys) pattern =
     (case keyIncludes key pattern of
        Inl e \<Rightarrow> Inl e
      | Inr hit \<Rightarrow>
          (case matchingKeys keys pattern of
             Inl e \<Rightarrow> Inl e
           | Inr hits \<Rightarrow> Inr (if hit then key # hits else hits)))"

definition invalidateUpdater :: "string \<Rightarrow> props \<Rightarrow> exn + jsval" where
  "invalidateUpdater pattern st =
     (let r = freshAfter [VObj 0 st]
      in case newMap (lookup st ''cache'') of
           Inl e \<Rightarrow> Inl e
         | Inr newCache \<Rightarrow>
             (case matchingKeys (map fst newCache) pattern of
                Inl e \<Rightarrow> Inl e
              | Inr hits \<Rightarrow>
                  Inr (VObj (Suc r)
                    [(''cache'', VMap r (filter (\<lambda>(k, v). \<not> setHas hits k) newCache))])))"

definition invalidateCache :: "string \<Rightarrow> manager \<Rightarrow> manager" where
  "invalidateCache pattern m = snd (setState (UFun (invalidateUpdater pattern)) m)"

text \<open>
  \<^verbatim>\<open>
  async getWithCache(key, fetcher, options = {}) {
      const cacheKey = `cache_${key}`;
      const now = Date.now();
      const cached = this.state.cache.get(cacheKey);
      if (cached && now - cached.timestamp < (options.ttl || this.cacheTimeout))
          return cached.data;
      const data = await fetcher();
      this.setState(state => ({
          cache: new Map(state.cache).set(cacheKey, { data, timestamp: now }) }));
      return data;
  }
  \<close>
  The fetcher is given by what awaiting it yields; the call is recorded in the trace.
  \<^verbatim>\<open>ttl\<close> is \<^verbatim>\<open>options.ttl\<close>, \<^verbatim>\<open>undefined\<close> when absent. The function returns when its
  promise settles: the microtask of the storing \<^verbatim>\<open>setState\<close> is then still queued.
\<close>

definition cacheFresh :: "int \<Rightarrow> jsval \<Rightarrow> jsval \<Rightarrow> bool" where
  "cacheFresh now cached ttl =
     (\<not> falsy cached \<and>
      (case getProp cached ''timestamp'' of
         Inl e \<Rightarrow> False
       | Inr ts \<Rightarrow>
           (case (toNumber ts, toNumber (if falsy ttl then VNum cacheTimeout else ttl)) of
              (Some t, Some limit) \<Rightarrow> now - t < limit
            | _ \<Rightarrow> False)))"

definition storeUpdater :: "string \<Rightarrow> jsval \<Rightarrow> int \<Rightarrow> props \<Rightarrow> exn + jsval" where
  "storeUpdater cacheKey data now st =
     (let r = freshAfter [VObj 0 st, data]
      in case newMap (lookup st ''cache'') of
           Inl e \<Rightarrow> Inl e
         | Inr newCache \<Rightarrow>
             Inr (VObj (r + 2)
               [(''cache'',
                 VMap r (mapSet (VStr cacheKey)
                   (VObj (Suc r) [(''data'', data), (''timestamp'', VNum now)]) newCache))]))"

definition getWithCache :: "string \<Rightarrow> exn + jsval \<Rightarrow> jsval \<Rightarrow> manager \<Rightarrow> (exn + jsval) \<times> manager" where
  "getWithCache key fetcher ttl m =
     (let cacheKey = ''cache_'' @ key;
          now = clock m
      in case callGet (lookup (state m) ''cache'') (VStr cacheKey) of
           Inl e \<Rightarrow> (Inl e, m)
         | Inr cached \<Rightarrow>
             if cacheFresh now cached ttl then
               (case getProp cached ''data'' of Inl e \<Rightarrow> (Inl e, m) | Inr d \<Rightarrow> (Inr d, m))
             else
               (let m1 = drain (log [FetcherCalled] m)
                in case fetcher of
                     Inl e \<Rightarrow> (Inl e, m1)
                   | Inr data \<Rightarrow>
                       (Inr data, snd (setState (UFun (storeUpdater cacheKey data now)) m1))))"

section \<open>OfflinePendingQueue and the optimistic toggles\<close>

text \<open>
  \<^verbatim>\<open>
  queueAction(type, data) {
      const action = { type, data, timestamp: Date.now(),
                       id: Math.random().toString(36).substr(2, 9) };
      this.setState(state => ({ pendingActions: [...state.pendingActions, action] }));
      this.saveToStorage('pendingActions', this.state.pendingActions);
  }
  \<close>
  The random id is supplied by the caller of the model.
\<close>

definition appendUpdater :: "jsval \<Rightarrow> props \<Rightarrow> exn + jsval" where
  "appendUpdater action st =
     (let r = freshAfter [VObj 0 st, action]
      in case iterate (r + 2) (lookup st ''pendingActions'') of
           Inl e \<Rightarrow> Inl e
         | Inr xs \<Rightarrow> Inr (VObj (Suc r) [(''pendingActions'', VArr r (xs @ [action]))]))"

definition queueAction :: "string \<Rightarrow> jsval \<Rightarrow> string \<Rightarrow> manager \<Rightarrow> manager" where
  "queueAction type data newId m =
     (let action = VObj (freshAfter [VObj 0 (state m), data])
                     [(''type'', VStr type), (''data'', data),
                      (''timestamp'', VNum (clock m)), (''id'', VStr newId)];
          m1 = snd (setState (UFun (appendUpdater action)) m)
      in saveToStorage ''pendingActions'' (lookup (state m1) ''pendingActions'') m1)"

text \<open>
  \<^verbatim>\<open>processAction\<close>: a \<^verbatim>\<open>like\<close> or \<^verbatim>\<open>save\<close> action is sent to the remote service, any
  other type is a success without a call. The result is the error, if any, the
  \<^verbatim>\<open>await\<close> of the caller sees; the microtask queue runs during that \<^verbatim>\<open>await\<close>.
\<close>

definition sendAction :: "string \<Rightarrow> string \<Rightarrow> (request \<Rightarrow> exn + jsval) \<Rightarrow> jsval \<Rightarrow> manager \<Rightarrow> exn option \<times> manager" where
  "sendAction endpoint flag remote action m =
     (case getProp action ''data'' of
        Inl e \<Rightarrow> (Some e, drain m)
      | Inr d \<Rightarrow>
          (case getProp d ''videoId'' of
             Inl e \<Rightarrow> (Some e, drain m)
           | Inr videoId \<Rightarrow>
               (case getProp d flag of
                  Inl e \<Rightarrow> (Some e, drain m)
                | Inr v \<Rightarrow>
                    (let m1 = drain (log [ApiRequest (Request endpoint videoId v)] m)
                     in case remote (Request endpoint videoId v) of
                          Inl e \<Rightarrow> (Some e, m1)
                        | Inr response \<Rightarrow> (None, m1)))))"

definition processAction :: "(request \<Rightarrow> exn + jsval) \<Rightarrow> jsval \<Rightarrow> manager \<Rightarrow> exn option \<times> manager" where
  "processAction remote action m =
     (case getProp action ''type'' of
        Inl e \<Rightarrow> (Some e, drain m)
      | Inr t \<Rightarrow>
          if strict_eq t (VStr ''like'') then sendAction ''like'' ''liked'' remote action m
          else if strict_eq t (VStr ''save'') then sendAction ''save'' ''saved'' remote action m
          else (None, drain m))"

text \<open>
  \<^verbatim>\<open>state.pendingActions.filter(a => a.id !== action.id)\<close>: only an array has the method,
  and reading \<^verbatim>\<open>a.id\<close> throws on an element that is \<^verbatim>\<open>undefined\<close> or \<^verbatim>\<open>null\<close>. The action
  itself is neither when the updater is built: \<^verbatim>\<open>processAction\<close> has read its type.
\<close>

fun withoutId :: "jsval list \<Rightarrow> jsval \<Rightarrow> exn + jsval list" where
  "withoutId [] i = Inr []"
| "withoutId (a # rest) i =
     (case getProp a ''id'' of
        Inl e \<Rightarrow> Inl e
      | Inr j \<Rightarrow>
          (case withoutId rest i of
             Inl e \<Rightarrow> Inl e
           | Inr kept \<Rightarrow> Inr (if \<not> strict_eq j i then a # kept else kept)))"

definition removeUpdater :: "jsval \<Rightarrow> props \<Rightarrow> exn + jsval" where
  "removeUpdater action st =
     (let r = freshAfter [VObj 0 st, action]
      in case lookup st ''pendingActions'' of
           VArr r' xs \<Rightarrow>
             (case getProp action ''id'' of
                Inl e \<Rightarrow> Inl e
              | Inr i \<Rightarrow>
                  (case withoutId xs i of
                     Inl e \<Rightarrow> Inl e
                   | Inr kept \<Rightarrow> Inr (VObj (Suc r) [(''pendingActions'', VArr r kept)])))
         | VUndefined \<Rightarrow> Inl (TypeError ''Cannot read properties of undefined'')
         | VNull \<Rightarrow> Inl (TypeError ''Cannot read properties of null'')
         | _ \<Rightarrow> Inl (TypeError ''filter is not a function''))"

text \<open>
  \<^verbatim>\<open>
  async syncPendingActions() {
      const actions = [...this.state.pendingActions];
      for (const action of actions) {
          try {
              await this.processAction(action);
              this.setState(state => ({
                  pendingActions: state.pendingActions.filter(a => a.id !== action.id) }));
          } catch (error) {
              console.error(`Action sync failed for ${action.type}:`, error);
              break;
          }
      }
      await this.saveToStorage('pendingActions', this.state.pendingActions);
  }
  \<close>
  The loop returns an error only when the handler itself throws, reading \<^verbatim>\<open>action.type\<close>
  of an action that is \<^verbatim>\<open>undefined\<close> or \<^verbatim>\<open>null\<close>.
\<close>

fun syncLoop :: "(request \<Rightarrow> exn + jsval) \<Rightarrow> jsval list \<Rightarrow> manager \<Rightarrow> exn option \<times> manager" where
  "syncLoop remote [] m = (None, m)"
| "syncLoop remote (action # rest) m =
     (case processAction remote action m of
        (None, m1) \<Rightarrow> syncLoop remote rest (snd (setState (UFun (removeUpdater action)) m1))
      | (Some error, m1) \<Rightarrow>
          (case getProp action ''type'' of
             Inl e \<Rightarrow> (Some e, m1)
           | Inr t \<Rightarrow> (None, log [ConsoleError ''Action sync failed''] m1)))"

definition syncPendingActions :: "(request \<Rightarrow> exn + jsval) \<Rightarrow> manager \<Rightarrow> exn option \<times> manager" where
  "syncPendingActions remote m =
     (case iterate (freshAfter [VObj 0 (state m)]) (lookup (state m) ''pendingActions'') of
        Inl e \<Rightarrow> (Some e, m)
      | Inr actions \<Rightarrow>
          (case syncLoop remote actions m of
             (Some e, m1) \<Rightarrow> (Some e, m1)
           | (None, m1) \<Rightarrow>
               (None, drain (saveToStorage ''pendingActions''
                               (lookup (state m1) ''pendingActions'') m1))))"

text \<open>
  \<^verbatim>\<open>likeVideo\<close> and \<^verbatim>\<open>saveVideo\<close> are the same method but for the field
  (\<^verbatim>\<open>likedVideos\<close>, \<^verbatim>\<open>savedVideos\<close>), the endpoint and action type (\<^verbatim>\<open>like\<close>, \<^verbatim>\<open>save\<close>), the
  name of the flag (\<^verbatim>\<open>liked\<close>, \<^verbatim>\<open>saved\<close>), and the \<^verbatim>\<open>invalidateCache\<close> call that only
  \<^verbatim>\<open>likeVideo\<close> makes:
  \<^verbatim>\<open>
  async likeVideo(videoId) {
      const previousLiked = this.state.likedVideos.has(videoId);
      const newLiked = !previousLiked;
      await this.setState(state => ({ likedVideos: new Set(newLiked
          ? [...state.likedVideos, videoId]
          : Array.from(state.likedVideos).filter(id => id !== videoId)) }));
      try {
          if (this.state.online)
              await this.apiRequest(`/videos/${videoId}/like`, ...{ liked: newLiked });
          else
              this.queueAction('like', { videoId, liked: newLiked });
          this.invalidateCache(`video_${videoId}`);
          return newLiked;
      } catch (error) {
          await this.setState(state => ({ likedVideos: new Set(previousLiked ? ... : ...) }));
          throw error;
      }
  }
  \<close>
  Video ids are strings.
\<close>

definition membershipUpdater :: "string \<Rightarrow> string \<Rightarrow> bool \<Rightarrow> props \<Rightarrow> exn + jsval" where
  "membershipUpdater field videoId member st =
     (let r = freshAfter [VObj 0 st]
      in case (if member then
                 (case iterate (r + 2) (lookup st field) of
                    Inl e \<Rightarrow> Inl e
                  | Inr xs \<Rightarrow> Inr (xs @ [VStr videoId]))
               else
                 (case arrayFrom (r + 2) (lookup st field) of
                    Inl e \<Rightarrow> Inl e
                  | Inr xs \<Rightarrow> Inr (filter (\<lambda>i. \<not> strict_eq i (VStr videoId)) xs))) of
           Inl e \<Rightarrow> Inl e
         | Inr items \<Rightarrow> Inr (VObj (Suc r) [(field, VSet r (uniq items))]))"

definition awaitPromise :: "promise \<Rightarrow> manager \<Rightarrow> exn option \<times> manager" where
  "awaitPromise pr m =
     (let m1 = drain m
      in case outcome pr m1 of
           Some (Rejected e) \<Rightarrow> (Some e, m1)
         | _ \<Rightarrow> (None, m1))"

definition confirmToggle ::
  "string \<Rightarrow> string \<Rightarrow> bool \<Rightarrow> string \<Rightarrow> bool \<Rightarrow> (request \<Rightarrow> exn + jsval) \<Rightarrow> string \<Rightarrow> manager
     \<Rightarrow> exn option \<times> manager" where
  "confirmToggle endpoint flag invalidates videoId newValue remote newId m =
     (if \<not> falsy (lookup (state m) ''online'') then
        (let m1 = drain (log [ApiRequest (Request endpoint (VStr videoId) (VBool newValue))] m)
         in case remote (Request endpoint (VStr videoId) (VBool newValue)) of
              Inl e \<Rightarrow> (Some e, m1)
            | Inr response \<Rightarrow>
                (None, if invalidates then invalidateCache (''video_'' @ videoId) m1 else m1))
      else
        (let d = VObj (freshAfter [VObj 0 (state m)])
                   [(''videoId'', VStr videoId), (flag, VBool newValue)];
             m1 = queueAction endpoint d newId m
         in (None, if invalidates then invalidateCache (''video_'' @ videoId) m1 else m1)))"

definition optimisticToggle ::
  "string \<Rightarrow> string \<Rightarrow> string \<Rightarrow> bool \<Rightarrow> string \<Rightarrow> (request \<Rightarrow> exn + jsval) \<Rightarrow> string \<Rightarrow> manager
     \<Rightarrow> (exn + bool) \<times> manager" where
  "optimisticToggle field endpoint flag invalidates videoId remote newId m =
     (case callHas (lookup (state m) field) (VStr videoId) of
        Inl e \<Rightarrow> (Inl e, m)
      | Inr previousValue \<Rightarrow>
          (let newValue = \<not> previousValue;
               (pr, m1) = setState (UFun (membershipUpdater field videoId newValue)) m
           in case awaitPromise pr m1 of
                (Some e, m2) \<Rightarrow> (Inl e, m2)
              | (None, m2) \<Rightarrow>
                  (case confirmToggle endpoint flag invalidates videoId newValue remote newId m2 of
                     (None, m3) \<Rightarrow> (Inr newValue, m3)
                   | (Some error, m3) \<Rightarrow>
                       (let (pr', m4) =
                              setState (UFun (membershipUpdater field videoId previousValue)) m3
                        in case awaitPromise pr' m4 of
                             (Some e, m5) \<Rightarrow> (Inl e, m5)
                           | (None, m5) \<Rightarrow> (Inl error, m5)))))"

definition likeVideo :: "string \<Rightarrow> (request \<Rightarrow> exn + jsval) \<Rightarrow> string \<Rightarrow> manager \<Rightarrow> (exn + bool) \<times> manager" where
  "likeVideo videoId remote newId m =
     optimisticToggle ''likedVideos'' ''like'' ''liked'' True videoId remote newId m"

definition saveVideo :: "string \<Rightarrow> (request \<Rightarrow> exn + jsval) \<Rightarrow> string \<Rightarrow> manager \<Rightarrow> (exn + bool) \<times> manager" where
  "saveVideo videoId remote newId m =
     optimisticToggle ''savedVideos'' ''save'' ''saved'' False videoId remote newId m"


section \<open>Schedules and the serialization invariant\<close>

text \<open>
  A history is chained when every entry starts from the snapshot the entry before it
  produced.
\<close>

fun chained :: "history_entry list \<Rightarrow> bool" where
  "chained [] = True"
| "chained [e] = True"
| "chained (e # e' # rest) = (previous e' = current e \<and> chained (e' # rest))"

text \<open>
  What holds between any two calls into the manager: at most one mutation body is queued,
  the flag is set exactly while one is, the promise counter is ahead of every promise
  made so far, the history is chained and ends in the current snapshot.
\<close>

definition serialized :: "manager \<Rightarrow> bool" where
  "serialized m \<longleftrightarrow>
     length (microtasks m) \<le> 1 \<and>
     (isMutating m \<longleftrightarrow> microtasks m \<noteq> []) \<and>
     (\<forall>q \<in> fst ` set (microtasks m) \<union> fst ` set (settled m). q < nextPromise m) \<and>
     chained (history m) \<and>
     (history m \<noteq> [] \<longrightarrow> current (last (history m)) = state m)"



text \<open>The trace events that are calls of a subscriber callback.\<close>

fun isInvoked :: "event \<Rightarrow> bool" where
  "isInvoked (Invoked i args) = True"
| "isInvoked e = False"

section \<open>Example candidates\<close>


text \<open>\<^verbatim>\<open>this.subscribers.get(key)\<close>, with no entry read as no callbacks.\<close>

definition registered :: "(string \<times> callback list) list \<Rightarrow> string \<Rightarrow> callback list" where
  "registered subs key = (case map_of subs key of None \<Rightarrow> [] | Some cbs \<Rightarrow> cbs)"



definition badOnlineCandidate :: jsval where
  "badOnlineCandidate = VObj 12 (assign ''online'' (VStr ''yes'') (initialState True))"

text \<open>The trace events that are console errors.\<close>

fun isConsoleError :: "event \<Rightarrow> bool" where
  "isConsoleError (ConsoleError s) = True"
| "isConsoleError e = False"

section \<open>Example subscribers\<close>

text \<open>
  A manager with two subscribers on \<^verbatim>\<open>videos\<close>, the first of which throws, and a wildcard
  subscriber; and a complete candidate that replaces \<^verbatim>\<open>videos\<close>.
\<close>

definition throwingCallback :: callback where
  "throwingCallback = Callback 101 (\<lambda>args. Some (Error ''render failed''))"

definition quietCallback :: "ref \<Rightarrow> callback" where
  "quietCallback r = Callback r (\<lambda>args. None)"

definition videosCandidate :: jsval where
  "videosCandidate =
     VObj 13 (assign ''videos'' (VMap 14 [(VStr ''1'', VStr ''clip'')]) (initialState True))"

definition watchedManager :: manager where
  "watchedManager =
     subscribe ''*'' (quietCallback 103)
       (subscribe ''videos'' (quietCallback 102)
          (subscribe ''videos'' throwingCallback (constructor True 0)))"

section \<open>The change detector as the specification words it\<close>







section \<open>Example remote services, queues and caches\<close>

text \<open>The trace events that are remote calls.\<close>

fun isApiRequest :: "event \<Rightarrow> bool" where
  "isApiRequest (ApiRequest req) = True"
| "isApiRequest e = False"

text \<open>
  A remote service that answers every request, and one that fails every request about
  video \<^verbatim>\<open>B\<close> with a response that is not \<^verbatim>\<open>ok\<close>.
\<close>

definition remoteOk :: "request \<Rightarrow> exn + jsval" where
  "remoteOk req = Inr (VObj 0 [])"

definition remoteFailB :: "request \<Rightarrow> exn + jsval" where
  "remoteFailB req =
     (case req of Request endpoint videoId v \<Rightarrow>
        if videoId = VStr ''B'' then Inl (Error ''HTTP 500: Internal Server Error'')
        else Inr (VObj 0 []))"

text \<open>
  A manager whose pending list holds three \<^verbatim>\<open>like\<close> actions, for the videos \<^verbatim>\<open>A\<close>, \<^verbatim>\<open>B\<close> and
  \<^verbatim>\<open>C\<close> in that order, and one whose cache holds the keys \<^verbatim>\<open>cache_videos\<close> and
  \<^verbatim>\<open>cache_user\<close>. Both are reached from the constructor by one \<^verbatim>\<open>setState\<close> with a
  complete candidate.
\<close>

definition likeAction :: "ref \<Rightarrow> string \<Rightarrow> string \<Rightarrow> jsval" where
  "likeAction r i videoId =
     VObj r [(''type'', VStr ''like''),
             (''data'', VObj (Suc r) [(''videoId'', VStr videoId), (''liked'', VBool True)]),
             (''timestamp'', VNum 0),
             (''id'', VStr i)]"

definition pendingABC :: jsval where
  "pendingABC =
     VArr 31 [likeAction 40 ''a1'' ''A'', likeAction 42 ''b2'' ''B'', likeAction 44 ''c3'' ''C'']"

definition queuedManager :: manager where
  "queuedManager =
     tick (snd (setState
       (UVal (VObj 30 (assign ''pendingActions'' pendingABC (initialState True))))
       (constructor True 0)))"

definition cacheVU :: jsval where
  "cacheVU =
     VMap 31 [(VStr ''cache_videos'', VObj 32 [(''data'', VStr ''feed''), (''timestamp'', VNum 0)]),
              (VStr ''cache_user'', VObj 33 [(''data'', VStr ''me''), (''timestamp'', VNum 0)])]"

definition cachedManager :: manager where
  "cachedManager =
     tick (snd (setState
       (UVal (VObj 30 (assign ''cache'' cacheVU (initialState True))))
       (constructor True 0)))"

text \<open>
  An updater result that cannot pass the validator: a throw, or a candidate object
  without a \<^verbatim>\<open>user\<close> property.
\<close>

definition partialResult :: "exn + jsval \<Rightarrow> bool" where
  "partialResult res \<longleftrightarrow>
     (case res of
        Inl e \<Rightarrow> True
      | Inr c \<Rightarrow> (case c of VObj r ps \<Rightarrow> map_of ps ''user'' = None | _ \<Rightarrow> False))"

section \<open>Properties\<close>

subsection \<open>Validation\<close>

lemma validateLoop_None:
  "validateLoop sch st = Inr None \<longleftrightarrow>
     (\<forall>(key, expectedTypes) \<in> set sch. \<exists>v. getProp st key = Inr v \<and> typeof v \<in> set expectedTypes)"
  by (induction sch st rule: validateLoop.induct)
     (auto simp: Let_def split: sum.splits)

lemma validateState_True:
  "validateState st = Inr True \<longleftrightarrow> validateLoop schema st = Inr None"
  by (auto simp: validateState_def split: sum.splits)

lemma validateState_plain_object:
  "validateState st = Inr True \<Longrightarrow> \<exists>r ps. st = VObj r ps"
  by (cases st) (auto simp: validateState_True validateLoop_None schema_def)

lemma validateState_missing_user:
  "map_of ps ''user'' = None \<Longrightarrow> validateState (VObj r ps) = Inr False"
  by (simp add: validateState_def schema_def lookup_def)

lemma runMutation_commit:
  assumes "applyUpdater updater (state m) = Inr newState" "validateState newState = Inr True"
  shows "runMutation p updater m = (commit p newState m)\<lparr>isMutating := False\<rparr>"
  using assms by (simp add: runMutation_def)

lemma runMutation_invalid:
  assumes "applyUpdater updater (state m) = Inr newState" "validateState newState = Inr False"
  shows "runMutation p updater m =
    (settle p (Rejected (Error ''Invalid state structure'')) (log (validationLog newState) m))\<lparr>isMutating := False\<rparr>"
  using assms by (simp add: runMutation_def)

lemma validationLog_no_invoked: "Invoked i a \<notin> set (validationLog st)"
  by (auto simp: validationLog_def split: sum.splits option.splits)





lemma commit_fields:
  "state (commit p c m) = spreadMerge (state m) (ownProps c)"
  "history (commit p c m) =
     pushHistory \<lparr>timestamp = clock m, previous = state m,
                  current = spreadMerge (state m) (ownProps c)\<rparr> (history m)"
  "settled (commit p c m) = settled m @ [(p, Fulfilled (Some (spreadMerge (state m) (ownProps c))))]"
  "microtasks (commit p c m) = microtasks m"
  "nextPromise (commit p c m) = nextPromise m"
  "subscribers (commit p c m) = subscribers m"
  "isMutating (commit p c m) = isMutating m"
  "clock (commit p c m) = clock m"
  by (simp_all add: commit_def Let_def settle_def log_def notifySubscribers_def)






lemma serialized_constructor: "serialized (constructor onLine now)"
  by (simp add: serialized_def constructor_def)


lemma map_of_snoc_fresh:
  "k \<notin> fst ` set xs \<Longrightarrow> map_of (xs @ [(k, v)]) k = Some v"
  by (induction xs) auto

lemma map_add_fresh:
  "k \<notin> fst ` set xs \<Longrightarrow> ([k \<mapsto> v] ++ map_of xs) k = Some v"
  by (auto simp: map_add_Some_iff map_of_eq_None_iff)

lemma validateState_object:
  "validateState (VObj r ps) =
     Inr (\<forall>(key, expectedTypes) \<in> set schema. typeof (lookup ps key) \<in> set expectedTypes)"
proof -
  have "\<And>sch. validateLoop sch (VObj r ps) \<noteq> Inl e" for e
  proof -
    fix sch show "validateLoop sch (VObj r ps) \<noteq> Inl e"
      by (induction sch) (auto simp: Let_def split: if_splits)
  qed
  then obtain f where f: "validateLoop schema (VObj r ps) = Inr f"
    by (cases "validateLoop schema (VObj r ps)") auto
  have "f = None \<longleftrightarrow> (\<forall>(key, expectedTypes) \<in> set schema. typeof (lookup ps key) \<in> set expectedTypes)"
    using validateLoop_None[of schema "VObj r ps"] f by auto
  then show ?thesis by (simp add: validateState_def f)
qed

lemma validationLog_not_invoked: "list_all (\<lambda>e. \<not> isInvoked e) (validationLog st)"
  by (auto simp: validationLog_def split: sum.splits option.splits)

lemma setState_accepted:
  "\<not> isMutating m \<Longrightarrow>
     setState u m = (Promise (nextPromise m),
        m\<lparr>isMutating := True, microtasks := microtasks m @ [(nextPromise m, u)],
          nextPromise := Suc (nextPromise m)\<rparr>)"
  by (simp add: setState_def)

lemma tick_after_accept:
  assumes "serialized m" "\<not> isMutating m"
  shows "tick (snd (setState u m)) =
           runMutation (nextPromise m) u
             (m\<lparr>isMutating := True, nextPromise := Suc (nextPromise m), microtasks := []\<rparr>)"
  using assms by (simp add: setState_accepted tick_def serialized_def)



text \<open>
  Claim C9. A \<^verbatim>\<open>setState\<close> called while the \<^verbatim>\<open>isMutating\<close> flag is set is discarded:
  whatever the updater, the manager is left as it was but for the console warning (the
  snapshot, the history, the subscribers and the microtask queue are untouched, so the
  updater is never called), and the promise returned is fulfilled with \<^verbatim>\<open>undefined\<close>.
  The flag is clear after the constructor and set by an accepted \<^verbatim>\<open>setState\<close>.
\<close>

theorem setState_in_flight_dropped:
  assumes "isMutating m"
  shows "setState updater m =
           (ResolvedUndefined,
            m\<lparr>trace := trace m @ [ConsoleWarn ''State mutation already in progress'']\<rparr>)
         \<and> outcome (fst (setState updater m)) m' = Some (Fulfilled None)
         \<and> \<not> isMutating (constructor onLine now)
         \<and> isMutating (snd (setState updater' (constructor onLine now)))"
  using assms by (simp add: setState_def log_def outcome_def constructor_def)

theorem setState_in_flight_dropped_witness:
  "isMutating (snd (setState (UVal VNull) (constructor True 0))) \<and>
   setState (UFun (\<lambda>st. Inl (Error ''never called'')))
            (snd (setState (UVal VNull) (constructor True 0)))
     = (ResolvedUndefined,
        (snd (setState (UVal VNull) (constructor True 0)))
          \<lparr>trace := [ConsoleWarn ''State mutation already in progress'']\<rparr>)"
proof -
  have h: "isMutating (snd (setState (UVal VNull) (constructor True 0)))"
    by (simp add: setState_def constructor_def)
  have t: "trace (snd (setState (UVal VNull) (constructor True 0))) = []"
    by (simp add: setState_def constructor_def)
  show ?thesis
    using h setState_in_flight_dropped[OF h, of "UFun (\<lambda>st. Inl (Error ''never called''))"]
    by (simp add: t)
qed

text \<open>
  Claim C2. When the candidate of an accepted submission fails the schema check, the
  promise is rejected with the validation error \<^verbatim>\<open>Error('Invalid state structure')\<close>, the
  snapshot, the history and the subscribers are as before, and the only events are the
  validator's console message: no callback is invoked and no save is scheduled.
\<close>

theorem validation_failure_atomic:
  assumes "serialized m" and "\<not> isMutating m"
      and "applyUpdater updater (state m) = Inr newState"
      and "validateState newState = Inr False"
  shows "outcome (fst (setState updater m)) (tick (snd (setState updater m)))
           = Some (Rejected (Error ''Invalid state structure''))
       \<and> state (tick (snd (setState updater m))) = state m
       \<and> history (tick (snd (setState updater m))) = history m
       \<and> subscribers (tick (snd (setState updater m))) = subscribers m
       \<and> trace (tick (snd (setState updater m))) = trace m @ validationLog newState
       \<and> list_all (\<lambda>e. \<not> isInvoked e \<and> e \<noteq> SaveDebounced) (validationLog newState)
       \<and> \<not> isMutating (tick (snd (setState updater m)))"
proof -
  let ?m1 = "m\<lparr>isMutating := True, nextPromise := Suc (nextPromise m), microtasks := []\<rparr>"
  have t: "tick (snd (setState updater m)) = runMutation (nextPromise m) updater ?m1"
    using assms(1,2) by (rule tick_after_accept)
  have r: "runMutation (nextPromise m) updater ?m1 =
     (settle (nextPromise m) (Rejected (Error ''Invalid state structure''))
        (log (validationLog newState) ?m1))\<lparr>isMutating := False\<rparr>"
    by (rule runMutation_invalid) (simp_all add: assms)
  have fresh: "nextPromise m \<notin> fst ` set (settled m)"
    using assms(1) by (auto simp: serialized_def)
  have l: "list_all (\<lambda>e. \<not> isInvoked e \<and> e \<noteq> SaveDebounced) (validationLog newState)"
    by (auto simp: validationLog_def split: sum.splits option.splits)
  show ?thesis
    unfolding t r using assms(2) fresh l
    by (simp add: setState_accepted outcome_def settle_def log_def map_add_fresh)
qed



lemma badOnline_invalid: "validateState badOnlineCandidate = Inr False"
  by (simp add: badOnlineCandidate_def validateState_object schema_def initialState_def lookup_def)

theorem validation_failure_atomic_witness:
  "serialized (constructor True 0) \<and> \<not> isMutating (constructor True 0) \<and>
   applyUpdater (UVal badOnlineCandidate) (state (constructor True 0)) = Inr badOnlineCandidate \<and>
   validateState badOnlineCandidate = Inr False \<and>
   outcome (fst (setState (UVal badOnlineCandidate) (constructor True 0)))
           (tick (snd (setState (UVal badOnlineCandidate) (constructor True 0))))
     = Some (Rejected (Error ''Invalid state structure'')) \<and>
   state (tick (snd (setState (UVal badOnlineCandidate) (constructor True 0)))) = initialState True \<and>
   history (tick (snd (setState (UVal badOnlineCandidate) (constructor True 0)))) = []"
proof -
  have h1: "serialized (constructor True 0)" by (rule serialized_constructor)
  have h2: "\<not> isMutating (constructor True 0)" by (simp add: constructor_def)
  have h3: "applyUpdater (UVal badOnlineCandidate) (state (constructor True 0)) = Inr badOnlineCandidate"
    by (simp add: applyUpdater_def)
  have h4: "validateState badOnlineCandidate = Inr False" by (rule badOnline_invalid)
  have s: "state (constructor True 0) = initialState True" "history (constructor True 0) = []"
    by (simp_all add: constructor_def)
  show ?thesis
    using validation_failure_atomic[OF h1 h2 h3 h4] h1 h2 h3 h4 by (simp add: s)
qed




subsection \<open>Notification\<close>

lemma invokeAll_invoked:
  "filter isInvoked (invokeAll cbs args label) = map (\<lambda>cb. Invoked (cb_id cb) args) cbs"
  by (induction cbs) (auto split: option.splits)

lemma invokeAll_errors:
  "filter isConsoleError (invokeAll cbs args label) =
     map (\<lambda>cb. ConsoleError label) (filter (\<lambda>cb. cb_run cb args \<noteq> None) cbs)"
  by (induction cbs) (auto split: option.splits)

lemma notifyKey_invoked:
  "filter isInvoked (notifyKey subs prev cur key) =
     map (\<lambda>cb. Invoked (cb_id cb) (FieldArgs (lookup cur key) (lookup prev key) key))
         (registered subs key)"
  by (simp add: notifyKey_def registered_def invokeAll_invoked split: option.splits)

lemma notifyGlobal_invoked:
  "filter isInvoked (notifyGlobal subs prev cur keys) =
     map (\<lambda>cb. Invoked (cb_id cb) (GlobalArgs cur prev keys)) (registered subs ''*'')"
  by (simp add: notifyGlobal_def registered_def invokeAll_invoked split: option.splits)

lemma filter_concat_map:
  "filter P (concat (map f xs)) = concat (map (\<lambda>x. filter P (f x)) xs)"
  by (induction xs) auto

lemma notifySubscribers_invoked:
  "filter isInvoked (trace (notifySubscribers prev cur m)) =
     filter isInvoked (trace m)
     @ concat (map (\<lambda>key. map (\<lambda>cb. Invoked (cb_id cb)
                                   (FieldArgs (lookup cur key) (lookup prev key) key))
                              (registered (subscribers m) key))
                   (getChangedKeys prev cur))
     @ map (\<lambda>cb. Invoked (cb_id cb) (GlobalArgs cur prev (getChangedKeys prev cur)))
           (registered (subscribers m) ''*'')"
  by (simp add: notifySubscribers_def Let_def log_def filter_concat_map
                notifyKey_invoked notifyGlobal_invoked)

lemma commit_invoked:
  "filter isInvoked (trace (commit p c m)) =
     filter isInvoked (trace m)
     @ concat (map (\<lambda>key. map (\<lambda>cb. Invoked (cb_id cb)
                 (FieldArgs (lookup (spreadMerge (state m) (ownProps c)) key) (lookup (state m) key) key))
                              (registered (subscribers m) key))
                   (getChangedKeys (state m) (spreadMerge (state m) (ownProps c))))
     @ map (\<lambda>cb. Invoked (cb_id cb)
              (GlobalArgs (spreadMerge (state m) (ownProps c)) (state m)
                 (getChangedKeys (state m) (spreadMerge (state m) (ownProps c)))))
           (registered (subscribers m) ''*'')"
  by (simp add: commit_def Let_def settle_def log_def notifySubscribers_invoked)

text \<open>
  Claim C8. In the commit of an accepted, valid submission the callbacks invoked are
  exactly: for each changed field in turn, every callback registered for it, and then
  every wildcard callback, whatever any of them does. A callback that throws adds one
  console error and nothing else, and the promise of the submission is fulfilled with
  the committed snapshot.
\<close>

theorem subscriber_isolation:
  assumes "serialized m" and "\<not> isMutating m"
      and "applyUpdater updater (state m) = Inr newState"
      and "validateState newState = Inr True"
  shows "filter isInvoked (trace (tick (snd (setState updater m)))) =
           filter isInvoked (trace m)
           @ concat (map (\<lambda>key. map (\<lambda>cb. Invoked (cb_id cb)
                       (FieldArgs (lookup (spreadMerge (state m) (ownProps newState)) key)
                                  (lookup (state m) key) key))
                                    (registered (subscribers m) key))
                         (getChangedKeys (state m) (spreadMerge (state m) (ownProps newState))))
           @ map (\<lambda>cb. Invoked (cb_id cb)
                    (GlobalArgs (spreadMerge (state m) (ownProps newState)) (state m)
                       (getChangedKeys (state m) (spreadMerge (state m) (ownProps newState)))))
                 (registered (subscribers m) ''*'')
       \<and> filter isConsoleError (invokeAll cbs args label) =
           map (\<lambda>cb. ConsoleError label) (filter (\<lambda>cb. cb_run cb args \<noteq> None) cbs)
       \<and> outcome (fst (setState updater m)) (tick (snd (setState updater m))) =
           Some (Fulfilled (Some (spreadMerge (state m) (ownProps newState))))
       \<and> state (tick (snd (setState updater m))) = spreadMerge (state m) (ownProps newState)"
proof -
  let ?m1 = "m\<lparr>isMutating := True, nextPromise := Suc (nextPromise m), microtasks := []\<rparr>"
  have t: "tick (snd (setState updater m)) = runMutation (nextPromise m) updater ?m1"
    using assms(1,2) by (rule tick_after_accept)
  have r: "runMutation (nextPromise m) updater ?m1 =
             (commit (nextPromise m) newState ?m1)\<lparr>isMutating := False\<rparr>"
    by (rule runMutation_commit) (simp_all add: assms)
  have fresh: "nextPromise m \<notin> fst ` set (settled m)"
    using assms(1) by (auto simp: serialized_def)
  show ?thesis
    unfolding t r using assms(2) fresh
    by (simp add: commit_invoked invokeAll_errors commit_fields setState_accepted
                  outcome_def map_add_fresh)
qed

theorem subscriber_isolation_witness:
  "serialized watchedManager \<and> \<not> isMutating watchedManager \<and>
   applyUpdater (UVal videosCandidate) (state watchedManager) = Inr videosCandidate \<and>
   validateState videosCandidate = Inr True \<and>
   cb_run throwingCallback (FieldArgs (VMap 14 [(VStr ''1'', VStr ''clip'')]) (VMap 1 []) ''videos'')
     = Some (Error ''render failed'') \<and>
   map (\<lambda>e. case e of Invoked i args \<Rightarrow> i | _ \<Rightarrow> 0)
       (filter isInvoked (trace (tick (snd (setState (UVal videosCandidate) watchedManager)))))
     = [101, 102, 103]"
proof -
  have h1: "serialized watchedManager"
    by (simp add: watchedManager_def subscribe_def Let_def serialized_def constructor_def)
  have h2: "\<not> isMutating watchedManager"
    by (simp add: watchedManager_def subscribe_def Let_def constructor_def)
  have h3: "applyUpdater (UVal videosCandidate) (state watchedManager) = Inr videosCandidate"
    by (simp add: applyUpdater_def)
  have h4: "validateState videosCandidate = Inr True"
    by (simp add: videosCandidate_def validateState_object schema_def initialState_def lookup_def)
  have st: "state watchedManager = initialState True" "trace watchedManager = []"
    by (simp_all add: watchedManager_def subscribe_def Let_def constructor_def)
  have ck: "getChangedKeys (initialState True)
              (spreadMerge (initialState True) (ownProps videosCandidate)) = [''videos'']"
    by code_simp
  have subs: "registered (subscribers watchedManager) ''videos'' = [throwingCallback, quietCallback 102]"
             "registered (subscribers watchedManager) ''*'' = [quietCallback 103]"
    by (simp_all add: watchedManager_def subscribe_def Let_def constructor_def registered_def
                      throwingCallback_def quietCallback_def)
  show ?thesis
    using subscriber_isolation[OF h1 h2 h3 h4, of "[]"] h1 h2 h3 h4
    by (simp add: st ck subs throwingCallback_def quietCallback_def)
qed

subsection \<open>Change detection\<close>


















subsection \<open>Partial updates\<close>

text \<open>
  \<^verbatim>\<open>setState\<close> validates the candidate fields, not the merged snapshot. A candidate that
  is an object without a \<^verbatim>\<open>user\<close> property therefore fails on the first schema key: the
  submission is rejected and the snapshot stays as it was. Every updater the manager
  builds itself returns such a candidate.
\<close>

lemma partial_update_rejected:
  assumes "serialized m" and "\<not> isMutating m"
      and "applyUpdater updater (state m) = Inr (VObj r ps)"
      and "map_of ps ''user'' = None"
  shows "outcome (fst (setState updater m)) (tick (snd (setState updater m)))
           = Some (Rejected (Error ''Invalid state structure''))"
    and "state (tick (snd (setState updater m))) = state m"
proof -
  let ?m1 = "m\<lparr>isMutating := True, nextPromise := Suc (nextPromise m), microtasks := []\<rparr>"
  have t: "tick (snd (setState updater m)) = runMutation (nextPromise m) updater ?m1"
    using assms(1,2) by (rule tick_after_accept)
  have v: "validateState (VObj r ps) = Inr False"
    using assms(4) by (rule validateState_missing_user)
  have r: "runMutation (nextPromise m) updater ?m1 =
     (settle (nextPromise m) (Rejected (Error ''Invalid state structure''))
        (log (validationLog (VObj r ps)) ?m1))\<lparr>isMutating := False\<rparr>"
    by (rule runMutation_invalid) (simp_all add: assms(3) v)
  have fresh: "nextPromise m \<notin> fst ` set (settled m)"
    using assms(1) by (auto simp: serialized_def)
  show "outcome (fst (setState updater m)) (tick (snd (setState updater m)))
           = Some (Rejected (Error ''Invalid state structure''))"
    unfolding t r using assms(2) fresh
    by (simp add: setState_accepted outcome_def settle_def log_def map_add_fresh)
  show "state (tick (snd (setState updater m))) = state m"
    unfolding t r by (simp add: settle_def log_def)
qed

text \<open>
  The updaters of \<^verbatim>\<open>invalidateCache\<close>, \<^verbatim>\<open>getWithCache\<close>, \<^verbatim>\<open>queueAction\<close>,
  \<^verbatim>\<open>syncPendingActions\<close>, \<^verbatim>\<open>likeVideo\<close> and \<^verbatim>\<open>saveVideo\<close> all give such a result, on every
  snapshot; so whenever one of them is accepted, its promise is rejected and the
  snapshot is unchanged.
\<close>

lemma manager_updaters_partial:
  "partialResult (invalidateUpdater pattern st)"
  "partialResult (storeUpdater cacheKey data now st)"
  "partialResult (appendUpdater action st)"
  "partialResult (removeUpdater action st)"
  "field \<noteq> ''user'' \<Longrightarrow> partialResult (membershipUpdater field videoId member st)"
  by (auto simp: partialResult_def invalidateUpdater_def storeUpdater_def appendUpdater_def
                 removeUpdater_def membershipUpdater_def Let_def
           split: sum.splits jsval.splits)

lemma partial_result_rejected:
  assumes "serialized m" and "\<not> isMutating m"
      and "partialResult (f (state m))"
  shows "\<exists>e. outcome (fst (setState (UFun f) m)) (tick (snd (setState (UFun f) m)))
               = Some (Rejected e)"
    and "state (tick (snd (setState (UFun f) m))) = state m"
proof -
  let ?m1 = "m\<lparr>isMutating := True, nextPromise := Suc (nextPromise m), microtasks := []\<rparr>"
  have t: "tick (snd (setState (UFun f) m)) = runMutation (nextPromise m) (UFun f) ?m1"
    using assms(1,2) by (rule tick_after_accept)
  have fresh: "nextPromise m \<notin> fst ` set (settled m)"
    using assms(1) by (auto simp: serialized_def)
  show "\<exists>e. outcome (fst (setState (UFun f) m)) (tick (snd (setState (UFun f) m)))
               = Some (Rejected e)"
  proof (cases "f (state m)")
    case (Inl e)
    then show ?thesis
      unfolding t using assms(2) fresh
      by (simp add: runMutation_def applyUpdater_def setState_accepted outcome_def
                    settle_def map_add_fresh)
  next
    case (Inr c)
    with assms(3) obtain r ps where c: "c = VObj r ps" "map_of ps ''user'' = None"
      by (auto simp: partialResult_def split: jsval.splits)
    have a: "applyUpdater (UFun f) (state m) = Inr (VObj r ps)"
      using Inr c by (simp add: applyUpdater_def)
    from partial_update_rejected(1)[OF assms(1,2) a c(2)] show ?thesis by blast
  qed
  show "state (tick (snd (setState (UFun f) m))) = state m"
  proof (cases "f (state m)")
    case (Inl e)
    then show ?thesis
      unfolding t by (simp add: runMutation_def applyUpdater_def settle_def)
  next
    case (Inr c)
    with assms(3) obtain r ps where c: "c = VObj r ps" "map_of ps ''user'' = None"
      by (auto simp: partialResult_def split: jsval.splits)
    have a: "applyUpdater (UFun f) (state m) = Inr (VObj r ps)"
      using Inr c by (simp add: applyUpdater_def)
    from partial_update_rejected(2)[OF assms(1,2) a c(2)] show ?thesis .
  qed
qed

text \<open>
  Claim C4, on the constructor's state with a remote service that would succeed. The
  optimistic \<^verbatim>\<open>setState\<close> of \<^verbatim>\<open>likeVideo('X')\<close> is rejected by the validator, so the promise
  of \<^verbatim>\<open>likeVideo\<close> rejects with that error, \<^verbatim>\<open>X\<close> is still not a member of \<^verbatim>\<open>likedVideos\<close>,
  and no remote call is made. Offline, \<^verbatim>\<open>saveVideo('X')\<close> rejects in the same way and
  leaves the snapshot, pending list included, as the constructor made it.
\<close>

theorem likeVideo_rejects_before_commit:
  "fst (likeVideo ''X'' remoteOk ''id1'' (constructor True 0))
     = Inl (Error ''Invalid state structure'')
   \<and> callHas (lookup (state (snd (likeVideo ''X'' remoteOk ''id1'' (constructor True 0))))
               ''likedVideos'') (VStr ''X'') = Inr False
   \<and> filter isApiRequest (trace (snd (likeVideo ''X'' remoteOk ''id1'' (constructor True 0)))) = []
   \<and> fst (saveVideo ''X'' remoteOk ''id1'' (constructor False 0))
     = Inl (Error ''Invalid state structure'')
   \<and> state (snd (saveVideo ''X'' remoteOk ''id1'' (constructor False 0))) = initialState False"
proof (intro conjI)
  show "fst (likeVideo ''X'' remoteOk ''id1'' (constructor True 0))
     = Inl (Error ''Invalid state structure'')" by code_simp
  show "callHas (lookup (state (snd (likeVideo ''X'' remoteOk ''id1'' (constructor True 0))))
               ''likedVideos'') (VStr ''X'') = Inr False" by code_simp
  show "filter isApiRequest (trace (snd (likeVideo ''X'' remoteOk ''id1'' (constructor True 0)))) = []"
    by code_simp
  show "fst (saveVideo ''X'' remoteOk ''id1'' (constructor False 0))
     = Inl (Error ''Invalid state structure'')" by code_simp
  show "state (snd (saveVideo ''X'' remoteOk ''id1'' (constructor False 0))) = initialState False"
    by code_simp
qed

text \<open>
  Claim C3, on the pending list \<^verbatim>\<open>[A, B, C]\<close> with \<^verbatim>\<open>B\<close> failing. The replay calls the
  remote service for \<^verbatim>\<open>A\<close>, then for \<^verbatim>\<open>B\<close>, and stops; but the removal of \<^verbatim>\<open>A\<close> is rejected
  by the validator, so the list is \<^verbatim>\<open>[A, B, C]\<close> afterwards, and still is after a second
  replay in which every call succeeds. \<^verbatim>\<open>queueAction\<close> on the constructor's state does
  not enqueue either: the pending list is empty after its microtask has run.
\<close>

theorem syncPendingActions_removes_nothing:
  "lookup (state queuedManager) ''pendingActions'' = pendingABC
   \<and> filter isApiRequest (trace (snd (syncPendingActions remoteFailB queuedManager)))
       = [ApiRequest (Request ''like'' (VStr ''A'') (VBool True)),
          ApiRequest (Request ''like'' (VStr ''B'') (VBool True))]
   \<and> lookup (state (drain (snd (syncPendingActions remoteFailB queuedManager))))
        ''pendingActions'' = pendingABC
   \<and> lookup (state (drain (snd (syncPendingActions remoteOk
         (drain (snd (syncPendingActions remoteFailB queuedManager)))))))
        ''pendingActions'' = pendingABC
   \<and> lookup (state (drain (queueAction ''like''
         (VObj 20 [(''videoId'', VStr ''A''), (''liked'', VBool True)]) ''a1''
         (constructor False 0))))
        ''pendingActions'' = VArr 5 []"
proof (intro conjI)
  show "lookup (state (drain (queueAction ''like''
         (VObj 20 [(''videoId'', VStr ''A''), (''liked'', VBool True)]) ''a1''
         (constructor False 0))))
        ''pendingActions'' = VArr 5 []" by code_simp
  show "lookup (state queuedManager) ''pendingActions'' = pendingABC" by code_simp
  show "filter isApiRequest (trace (snd (syncPendingActions remoteFailB queuedManager)))
       = [ApiRequest (Request ''like'' (VStr ''A'') (VBool True)),
          ApiRequest (Request ''like'' (VStr ''B'') (VBool True))]" by code_simp
  show "lookup (state (drain (snd (syncPendingActions remoteFailB queuedManager))))
        ''pendingActions'' = pendingABC" by code_simp
  show "lookup (state (drain (snd (syncPendingActions remoteOk
         (drain (snd (syncPendingActions remoteFailB queuedManager)))))))
        ''pendingActions'' = pendingABC" by code_simp
qed

text \<open>
  Claim C6, on the constructor's state. \<^verbatim>\<open>getWithCache('k', producer, {ttl: 1000})\<close>
  calls the producer and returns its data, but the storing \<^verbatim>\<open>setState\<close> is rejected by
  the validator and the cache stays empty; a second call 10 ms later calls the
  producer again.
\<close>

theorem getWithCache_never_stores:
  "fst (getWithCache ''k'' (Inr (VStr ''fresh'')) (VNum 1000) (constructor True 0))
     = Inr (VStr ''fresh'')
   \<and> lookup (state (drain (snd
        (getWithCache ''k'' (Inr (VStr ''fresh'')) (VNum 1000) (constructor True 0)))))
        ''cache'' = VMap 6 []
   \<and> trace ((drain (snd
        (getWithCache ''k'' (Inr (VStr ''fresh'')) (VNum 1000) (constructor True 0)))))
       = [FetcherCalled, ConsoleError ''State validation failed for user'']
   \<and> trace (snd (getWithCache ''k'' (Inr (VStr ''again'')) (VNum 1000)
        ((drain (snd
          (getWithCache ''k'' (Inr (VStr ''fresh'')) (VNum 1000) (constructor True 0))))
         \<lparr>clock := 10\<rparr>)))
       = [FetcherCalled, ConsoleError ''State validation failed for user'', FetcherCalled]"
proof (intro conjI)
  show "fst (getWithCache ''k'' (Inr (VStr ''fresh'')) (VNum 1000) (constructor True 0))
     = Inr (VStr ''fresh'')" by code_simp
  show "lookup (state (drain (snd
        (getWithCache ''k'' (Inr (VStr ''fresh'')) (VNum 1000) (constructor True 0)))))
        ''cache'' = VMap 6 []" by code_simp
  show "trace ((drain (snd
        (getWithCache ''k'' (Inr (VStr ''fresh'')) (VNum 1000) (constructor True 0)))))
       = [FetcherCalled, ConsoleError ''State validation failed for user'']" by code_simp
  show "trace (snd (getWithCache ''k'' (Inr (VStr ''again'')) (VNum 1000)
        ((drain (snd
          (getWithCache ''k'' (Inr (VStr ''fresh'')) (VNum 1000) (constructor True 0))))
         \<lparr>clock := 10\<rparr>)))
       = [FetcherCalled, ConsoleError ''State validation failed for user'', FetcherCalled]"
    by code_simp
qed

text \<open>
  Claim C7, on a cache with the keys \<^verbatim>\<open>cache_videos\<close> and \<^verbatim>\<open>cache_user\<close>. The key
  \<^verbatim>\<open>cache_videos\<close> contains the pattern \<^verbatim>\<open>videos\<close>, but the mutation of
  \<^verbatim>\<open>invalidateCache('videos')\<close> is rejected by the validator and the cache keeps both
  entries.
\<close>

theorem invalidateCache_removes_nothing:
  "lookup (state cachedManager) ''cache'' = cacheVU
   \<and> keyIncludes (VStr ''cache_videos'') ''videos'' = Inr True
   \<and> lookup (state (drain (invalidateCache ''videos'' cachedManager))) ''cache'' = cacheVU
   \<and> settled (drain (invalidateCache ''videos'' cachedManager))
       = settled cachedManager @ [(1, Rejected (Error ''Invalid state structure''))]"
proof (intro conjI)
  show "lookup (state cachedManager) ''cache'' = cacheVU" by code_simp
  show "keyIncludes (VStr ''cache_videos'') ''videos'' = Inr True" by code_simp
  show "lookup (state (drain (invalidateCache ''videos'' cachedManager))) ''cache'' = cacheVU"
    by code_simp
  show "settled (drain (invalidateCache ''videos'' cachedManager))
       = settled cachedManager @ [(1, Rejected (Error ''Invalid state structure''))]"
    by code_simp
qed

end
